theory Spec2Isabelle
  imports Main
begin

section \<open>Bulk API job orchestration (src/src/sobject.ts, second part): data model\<close>

text \<open>
  JavaScript values as far as the bulk code looks at them. A \<open>Record\<close> is an object:
  an association list from property name to value, in insertion order. A \<open>char\<close> of a
  string stands for the code unit of the same number, so the strings here are the
  JavaScript strings whose code units are all below 256.
\<close>

datatype jsval = Undefined | Null | Str string | Bool bool | Num int

type_synonym Record = "(string \<times> jsval) list"

text \<open>Truthiness of a string that may also be \<open>null\<close>/\<open>undefined\<close> (\<open>None\<close>).\<close>

definition truthy :: "string option \<Rightarrow> bool" where
  "truthy v = (case v of None \<Rightarrow> False | Some s \<Rightarrow> s \<noteq> [])"

datatype JobState = Open | Closed | Aborted | Failed | Unknown

datatype BatchState = BQueued | BInProgress | BCompleted | BFailed | BNotProcessed

record JobInfo =
  ji_id :: string
  ji_object :: string
  ji_operation :: string
  ji_state :: JobState

record BatchInfo =
  bi_id :: string
  bi_jobId :: string
  bi_state :: BatchState
  bi_stateMessage :: string
  bi_numberRecordsProcessed :: string
  bi_numberRecordsFailed :: string
  bi_totalProcessingTime :: string

text \<open>
  An \<open>Error\<close> object: its \<open>name\<close>, its \<open>message\<close>, and the two extra fields that
  \<open>PollingTimeoutError\<close> adds.
\<close>

record js_error =
  err_name :: string
  err_message :: string
  err_jobId :: "string option"
  err_batchId :: "string option"

definition Error :: "string \<Rightarrow> js_error" where
  "Error msg = \<lparr>err_name = ''Error'', err_message = msg, err_jobId = None, err_batchId = None\<rparr>"


text \<open>One row of \<open>BulkLoadResultResponse\<close>; a field is \<open>None\<close> when the row has no such value.\<close>

record LoadResultRow =
  row_Id :: "string option"
  row_Success :: "string option"
  row_Error :: "string option"

text \<open>One entry of \<open>BulkLoadBatchResult\<close>.\<close>

record LoadResult =
  res_id :: "string option"
  res_success :: bool
  res_errors :: "string list"

text \<open>One entry of \<open>BulkQueryBatchResult\<close>.\<close>

record QueryResult =
  qr_id :: string
  qr_batchId :: string
  qr_jobId :: string

datatype BatchResult = LoadBatchResult "LoadResult list" | QueryBatchResult "QueryResult list"

text \<open>
  The body of the result request: an array of rows, or a \<open>result-list\<close> whose
  \<open>result\<close> is one id or an array of ids.
\<close>

datatype ResultResponse = LoadResponse "LoadResultRow list" | QueryResponse "string + string list"

section \<open>Batch.\_write: shaping a record by the job's operation\<close>

definition field :: "Record \<Rightarrow> string \<Rightarrow> jsval" where
  "field r k = (case map_of r k of None \<Rightarrow> Undefined | Some v \<Rightarrow> v)"

text \<open>\<open>const { Id, type, attributes, ...rrec } = record_\<close>: the rest object.\<close>

definition rrec :: "Record \<Rightarrow> Record" where
  "rrec r = filter (\<lambda>(k, v). k \<noteq> ''Id'' \<and> k \<noteq> ''type'' \<and> k \<noteq> ''attributes'') r"

definition shape_record :: "string option \<Rightarrow> Record \<Rightarrow> Record" where
  "shape_record operation r =
     (if operation = Some ''insert'' then rrec r
      else if operation = Some ''delete'' \<or> operation = Some ''hardDelete''
        then [(''Id'', field r ''Id'')]
      else (''Id'', field r ''Id'') # rrec r)"

definition keys :: "Record \<Rightarrow> string set" where
  "keys r = fst ` set r"

section \<open>Batch.retrieve: decoding the result response\<close>

text \<open>\<open>v || null\<close> on a string that may be missing: a falsy value becomes \<open>null\<close>.\<close>

definition or_null :: "string option \<Rightarrow> string option" where
  "or_null v = (if truthy v then v else None)"

definition decode_row :: "LoadResultRow \<Rightarrow> LoadResult" where
  "decode_row ret =
     \<lparr>res_id = or_null (row_Id ret),
      res_success = (row_Success ret = Some ''true''),
      res_errors = (case or_null (row_Error ret) of Some e \<Rightarrow> [e] | None \<Rightarrow> [])\<rparr>"

text \<open>
  The body of the \<open>try\<close> block after the request: the branch is chosen by the job's
  operation and the response is cast to the shape that branch expects. A response of the
  other shape makes the property access or \<open>map\<close> call throw a \<open>TypeError\<close>, which the
  \<open>catch\<close> block then handles like a failed request.
\<close>

definition TypeError :: "string \<Rightarrow> js_error" where
  "TypeError msg = \<lparr>err_name = ''TypeError'', err_message = msg, err_jobId = None, err_batchId = None\<rparr>"

definition decode_response ::
  "string option \<Rightarrow> string \<Rightarrow> string \<Rightarrow> ResultResponse \<Rightarrow> js_error + BatchResult" where
  "decode_response operation jobId batchId resp =
     (if operation = Some ''query'' \<or> operation = Some ''queryAll'' then
        (case resp of
           QueryResponse resultId \<Rightarrow>
             Inr (QueryBatchResult
               (map (\<lambda>i. \<lparr>qr_id = i, qr_batchId = batchId, qr_jobId = jobId\<rparr>)
                 (case resultId of Inl single \<Rightarrow> [single] | Inr many \<Rightarrow> many)))
         | LoadResponse rows \<Rightarrow> Inl (TypeError ''Cannot read properties of undefined''))
      else
        (case resp of
           LoadResponse rows \<Rightarrow> Inr (LoadBatchResult (map decode_row rows))
         | QueryResponse resultId \<Rightarrow> Inl (TypeError ''res.map is not a function'')))"

section \<open>The transport and the Job class\<close>

record BulkOptions =
  extIdField :: "string option"
  concurrencyMode :: "string option"
  assignmentRuleId :: "string option"

definition no_options :: BulkOptions where
  "no_options = \<lparr>extIdField = None, concurrencyMode = None, assignmentRuleId = None\<rparr>"

record BulkRequest =
  req_method :: string
  req_path :: string
  req_body :: "string option"
  req_headers :: "(string \<times> string) list"
  req_responseType :: "string option"

text \<open>
  A promise is pending or settled. The promises of job information live in a table of
  the \<open>Bulk\<close> object and are named by their index, so that two references to one
  promise object are two equal indices.
\<close>

datatype 'a promise = Pending | Fulfilled 'a | Rejected js_error

text \<open>
  The \<open>Bulk\<close> object with its transport: \<open>requests\<close> is the log of what \<open>\_request\<close>
  has been asked to send, in order.
\<close>

record Bulk =
  pollInterval :: int
  pollTimeout :: int
  requests :: "BulkRequest list"
  promises :: "JobInfo promise list"

definition Bulk_new :: Bulk where
  "Bulk_new = \<lparr>pollInterval = 1000, pollTimeout = 10000, requests = [], promises = []\<rparr>"

definition Bulk_request :: "BulkRequest \<Rightarrow> Bulk \<Rightarrow> Bulk" where
  "Bulk_request r k = k\<lparr>requests := requests k @ [r]\<rparr>"

definition new_promise :: "Bulk \<Rightarrow> nat \<times> Bulk" where
  "new_promise k = (length (promises k), k\<lparr>promises := promises k @ [Pending]\<rparr>)"

text \<open>Settling changes a pending promise only.\<close>

definition settle :: "nat \<Rightarrow> js_error + JobInfo \<Rightarrow> Bulk \<Rightarrow> Bulk" where
  "settle p outcome k =
     (if p < length (promises k) \<and> promises k ! p = Pending
      then k\<lparr>promises := (promises k)[p := (case outcome of Inl e \<Rightarrow> Rejected e | Inr v \<Rightarrow> Fulfilled v)]\<rparr>
      else k)"

datatype job_event = EvOpen JobInfo | EvClose JobInfo | EvAbort JobInfo | EvError js_error

record Job =
  jtype :: "string option"
  joperation :: "string option"
  joptions :: BulkOptions
  jid :: "string option"
  jstate :: JobState
  jobInfo :: "nat option"
  jevents :: "job_event list"

text \<open>
  The constructor; \<open>options\<close> and \<open>jobId\<close> are \<open>None\<close> when the argument is
  \<open>null\<close> or missing. The index \<open>\_batches\<close> of the job's batches is left out: no
  operation modelled here reads it.
\<close>

definition Job_new ::
  "string option \<Rightarrow> string option \<Rightarrow> BulkOptions option \<Rightarrow> string option \<Rightarrow> Job" where
  "Job_new type operation options jobId =
     \<lparr>jtype = type, joperation = operation,
      joptions = (case options of None \<Rightarrow> no_options | Some opts \<Rightarrow> opts),
      jid = jobId,
      jstate = (if truthy jobId then Open else Unknown),
      jobInfo = None, jevents = []\<rparr>"

definition Job_emit :: "job_event \<Rightarrow> Job \<Rightarrow> Job" where
  "Job_emit ev j = j\<lparr>jevents := jevents j @ [ev]\<rparr>"

subsection \<open>Job.open\<close>

text \<open>
  \<open>toLowerCase\<close> on code units below 256: the capital letters \<open>A\<close> to \<open>Z\<close> and those
  from 192 to 222, the multiplication sign 215 apart, move up by 32.
\<close>

definition lower_char :: "char \<Rightarrow> char" where
  "lower_char c =
     (let n = (of_char c :: nat)
      in if (65 \<le> n \<and> n \<le> 90) \<or> (192 \<le> n \<and> n \<le> 222 \<and> n \<noteq> 215) then char_of (n + 32) else c)"

definition toLowerCase :: "string \<Rightarrow> string" where
  "toLowerCase s = map lower_char s"

definition normalize_operation :: "string \<Rightarrow> string" where
  "normalize_operation operation =
     (let op1 = toLowerCase operation;
          op2 = (if op1 = ''harddelete'' then ''hardDelete'' else op1)
      in if op2 = ''queryall'' then ''queryAll'' else op2)"

definition nl :: string where
  "nl = [CHR 0x0A]"

definition quot :: string where
  "quot = [CHR 0x22]"

definition xml_decl :: string where
  "xml_decl = ''<?xml version='' @ quot @ ''1.0'' @ quot @ '' encoding='' @ quot @ ''UTF-8'' @ quot @ ''?>''"

definition xml_opt :: "string \<Rightarrow> string option \<Rightarrow> string" where
  "xml_opt tag v =
     (case or_null v of Some x \<Rightarrow> ''<'' @ tag @ ''>'' @ x @ ''</'' @ tag @ ''>'' | None \<Rightarrow> [])"

definition open_body :: "string \<Rightarrow> string \<Rightarrow> BulkOptions \<Rightarrow> string" where
  "open_body operation type options =
     xml_decl @ nl @
     ''<jobInfo  xmlns='' @ quot @ ''http://www.force.com/2009/06/asyncapi/dataload'' @ quot @ ''>'' @ nl @
     ''  <operation>'' @ operation @ ''</operation>'' @ nl @
     ''  <object>'' @ type @ ''</object>'' @ nl @
     ''  '' @ xml_opt ''externalIdFieldName'' (extIdField options) @ nl @
     ''  '' @ xml_opt ''concurrencyMode'' (concurrencyMode options) @ nl @
     ''  '' @ xml_opt ''assignmentRuleId'' (assignmentRuleId options) @ nl @
     ''  <contentType>CSV</contentType>'' @ nl @
     ''</jobInfo>''"

definition xml_headers :: "(string \<times> string) list" where
  "xml_headers = [(''Content-Type'', ''application/xml; charset=utf-8'')]"

definition open_request :: "string \<Rightarrow> string \<Rightarrow> BulkOptions \<Rightarrow> BulkRequest" where
  "open_request operation type options =
     \<lparr>req_method = ''POST'', req_path = ''/job'',
      req_body = Some (open_body (normalize_operation operation) type options),
      req_headers = xml_headers, req_responseType = Some ''application/xml''\<rparr>"

text \<open>
  The synchronous part of \<open>open()\<close>: \<open>Inl\<close> is the exception it throws; otherwise the
  promise it returns, and the job and the transport after the call.
\<close>

definition Job_open :: "Job \<times> Bulk \<Rightarrow> js_error + (nat \<times> Job \<times> Bulk)" where
  "Job_open jk =
     (case jk of (j, k) \<Rightarrow>
        (case (or_null (jtype j), or_null (joperation j)) of
           (Some type, Some operation) \<Rightarrow>
             (case jobInfo j of
                None \<Rightarrow>
                  (let (p, k1) = new_promise (Bulk_request (open_request operation type (joptions j)) k)
                   in Inr (p, j\<lparr>jobInfo := Some p\<rparr>, k1))
              | Some p \<Rightarrow> Inr (p, j, k))
         | _ \<Rightarrow> Inl (Error ''type / operation is required to open a new job'')))"

text \<open>
  What the asynchronous body of \<open>open()\<close> does when its request is answered: promise
  \<open>p\<close> is the one that body returns.
\<close>

definition Job_open_settle :: "nat \<Rightarrow> js_error + JobInfo \<Rightarrow> Job \<times> Bulk \<Rightarrow> Job \<times> Bulk" where
  "Job_open_settle p outcome jk =
     (case jk of (j, k) \<Rightarrow>
        (case outcome of
           Inr info \<Rightarrow>
             ((Job_emit (EvOpen info) j)\<lparr>jid := Some (ji_id info), jstate := ji_state info\<rparr>,
              settle p outcome k)
         | Inl err \<Rightarrow> (Job_emit (EvError err) j, settle p outcome k)))"

subsection \<open>Job.close, Job.abort and Job.\_changeState\<close>

text \<open>
  \<open>\_waitIdAssignment\<close>: the identity at once, or the promise of \<open>open()\<close> to wait for,
  or the exception \<open>open()\<close> threw.
\<close>

datatype id_wait = IdReady string | IdFromOpen nat | IdThrew js_error

definition Job_waitIdAssignment :: "Job \<times> Bulk \<Rightarrow> id_wait \<times> Job \<times> Bulk" where
  "Job_waitIdAssignment jk =
     (case jk of (j, k) \<Rightarrow>
        (case or_null (jid j) of
           Some i \<Rightarrow> (IdReady i, j, k)
         | None \<Rightarrow>
             (case Job_open (j, k) of
                Inl err \<Rightarrow> (IdThrew err, j, k)
              | Inr (p, j1, k1) \<Rightarrow> (IdFromOpen p, j1, k1))))"

fun state_name :: "JobState \<Rightarrow> string" where
  "state_name Open = ''Open''"
| "state_name Closed = ''Closed''"
| "state_name Aborted = ''Aborted''"
| "state_name Failed = ''Failed''"
| "state_name Unknown = ''Unknown''"

definition changeState_request :: "JobState \<Rightarrow> string \<Rightarrow> BulkRequest" where
  "changeState_request state jobId =
     \<lparr>req_method = ''POST'', req_path = ''/job/'' @ jobId,
      req_body = Some (xml_decl @ nl @
        ''  <jobInfo xmlns='' @ quot @ ''http://www.force.com/2009/06/asyncapi/dataload'' @ quot @ ''>'' @ nl @
        ''  <state>'' @ state_name state @ ''</state>'' @ nl @ ''</jobInfo>''),
      req_headers = xml_headers, req_responseType = Some ''application/xml''\<rparr>"

text \<open>
  \<open>\_changeState\<close> up to its first wait: it asks for the identity, stores the promise of
  its own body in \<open>\_jobInfo\<close>, and sends the request when the identity is there. The
  result names what it waits for and the promise it stored.
\<close>

definition Job_changeState :: "JobState \<Rightarrow> Job \<times> Bulk \<Rightarrow> id_wait \<times> nat \<times> Job \<times> Bulk" where
  "Job_changeState state jk =
     (case Job_waitIdAssignment jk of (w, j1, k1) \<Rightarrow>
        (let (p, k2) = new_promise k1; j2 = j1\<lparr>jobInfo := Some p\<rparr>
         in case w of
              IdReady i \<Rightarrow> (w, p, j2, Bulk_request (changeState_request state i) k2)
            | IdFromOpen q \<Rightarrow> (w, p, j2, k2)
            | IdThrew err \<Rightarrow> (w, p, j2, settle p (Inl err) k2)))"


text \<open>The end of the body of \<open>\_changeState\<close>, when its request is answered.\<close>

definition Job_changeState_settle :: "nat \<Rightarrow> js_error + JobInfo \<Rightarrow> Job \<times> Bulk \<Rightarrow> Job \<times> Bulk" where
  "Job_changeState_settle p outcome jk =
     (case jk of (j, k) \<Rightarrow>
        (case outcome of
           Inr info \<Rightarrow> (j\<lparr>jstate := ji_state info\<rparr>, settle p outcome k)
         | Inl err \<Rightarrow> (j, settle p outcome k)))"

text \<open>
  \<open>close()\<close> and \<open>abort()\<close> after \<open>await this.\_changeState(...)\<close>: \<open>outcome\<close> is how the
  promise of \<open>\_changeState\<close> was settled. The \<open>try\<close> branch clears the identity and emits
  the event; the \<open>catch\<close> branch emits the error, which is then thrown again.
\<close>

definition Job_close_after :: "js_error + JobInfo \<Rightarrow> Job \<Rightarrow> Job" where
  "Job_close_after outcome j =
     (case outcome of
        Inr info \<Rightarrow> Job_emit (EvClose info) (j\<lparr>jid := None\<rparr>)
      | Inl err \<Rightarrow> Job_emit (EvError err) j)"

definition Job_abort_after :: "js_error + JobInfo \<Rightarrow> Job \<Rightarrow> Job" where
  "Job_abort_after outcome j =
     (case outcome of
        Inr info \<Rightarrow> Job_emit (EvAbort info) (j\<lparr>jid := None\<rparr>)
      | Inl err \<Rightarrow> Job_emit (EvError err) j)"

text \<open>
  \<open>close()\<close> and \<open>abort()\<close> from the answer to the state-change request to their end:
  the body of \<open>\_changeState\<close> finishes, then the caller's \<open>try\<close>/\<open>catch\<close> runs. The
  result is what the returned promise settles to.
\<close>

definition Job_close_settle ::
  "nat \<Rightarrow> js_error + JobInfo \<Rightarrow> Job \<times> Bulk \<Rightarrow> (js_error + JobInfo) \<times> Job \<times> Bulk" where
  "Job_close_settle p outcome jk =
     (case Job_changeState_settle p outcome jk of (j, k) \<Rightarrow> (outcome, Job_close_after outcome j, k))"


text \<open>\<open>close()\<close> and \<open>abort()\<close> up to their first wait.\<close>

definition Job_close :: "Job \<times> Bulk \<Rightarrow> id_wait \<times> nat \<times> Job \<times> Bulk" where
  "Job_close jk =
     (case Job_changeState Closed jk of
        (IdThrew err, p, j, k) \<Rightarrow> (IdThrew err, p, Job_close_after (Inl err) j, k)
      | r \<Rightarrow> r)"

definition Job_abort :: "Job \<times> Bulk \<Rightarrow> id_wait \<times> nat \<times> Job \<times> Bulk" where
  "Job_abort jk =
     (case Job_changeState Aborted jk of
        (IdThrew err, p, j, k) \<Rightarrow> (IdThrew err, p, Job_abort_after (Inl err) j, k)
      | r \<Rightarrow> r)"



subsection \<open>Job.check\<close>

definition check_request :: "string \<Rightarrow> BulkRequest" where
  "check_request jobId =
     \<lparr>req_method = ''GET'', req_path = ''/job/'' @ jobId, req_body = None, req_headers = [],
      req_responseType = Some ''application/xml''\<rparr>"

text \<open>
  \<open>check()\<close> up to its first wait: like \<open>\_changeState\<close> it asks for the identity,
  stores the promise of its own body in \<open>\_jobInfo\<close> and returns it, and sends its request
  when the identity is there.
\<close>

definition Job_check :: "Job \<times> Bulk \<Rightarrow> id_wait \<times> nat \<times> Job \<times> Bulk" where
  "Job_check jk =
     (case Job_waitIdAssignment jk of (w, j1, k1) \<Rightarrow>
        (let (p, k2) = new_promise k1; j2 = j1\<lparr>jobInfo := Some p\<rparr>
         in case w of
              IdReady i \<Rightarrow> (w, p, j2, Bulk_request (check_request i) k2)
            | IdFromOpen q \<Rightarrow> (w, p, j2, k2)
            | IdThrew err \<Rightarrow> (w, p, j2, settle p (Inl err) k2)))"

definition Job_check_resume :: "nat \<Rightarrow> js_error + JobInfo \<Rightarrow> Job \<times> Bulk \<Rightarrow> Job \<times> Bulk" where
  "Job_check_resume p opened jk =
     (case jk of (j, k) \<Rightarrow>
        (case opened of
           Inr info \<Rightarrow> (j, Bulk_request (check_request (ji_id info)) k)
         | Inl err \<Rightarrow> (j, settle p (Inl err) k)))"

text \<open>The end of the body of \<open>check()\<close>, when its request is answered.\<close>

definition Job_check_settle :: "nat \<Rightarrow> js_error + JobInfo \<Rightarrow> Job \<times> Bulk \<Rightarrow> Job \<times> Bulk" where
  "Job_check_settle p outcome jk =
     (case jk of (j, k) \<Rightarrow>
        (case outcome of
           Inr info \<Rightarrow>
             (j\<lparr>jid := Some (ji_id info), jtype := Some (ji_object info),
                joperation := Some (ji_operation info), jstate := ji_state info\<rparr>,
              settle p outcome k)
         | Inl err \<Rightarrow> (j, settle p outcome k)))"

section \<open>The Batch class\<close>

datatype batch_event =
    BQueue BatchInfo
  | BProgress BatchInfo
  | BResponse BatchResult
  | BError js_error

text \<open>
  What has been written towards the upload request, in order: a record handed to the
  encoder by \<open>\_write\<close>, or text written to the data stream as it is.
\<close>

datatype chunk = Rec Record | Raw string

record Batch =
  bid :: "string option"
  b_result :: "BatchResult promise option"
  upload :: "chunk list"
  uploadEnded :: bool
  bevents :: "batch_event list"

definition Batch_new :: "string option \<Rightarrow> Batch" where
  "Batch_new batchId =
     \<lparr>bid = batchId, b_result = None, upload = [], uploadEnded = False, bevents = []\<rparr>"

text \<open>
  \<open>emit\<close>: the event is recorded, and the two \<open>once\<close> listeners that \<open>execute\<close> puts
  on \<open>response\<close> and \<open>error\<close> settle the result promise if it is still pending. (An
  \<open>error\<close> event on an emitter without any listener for it makes \<open>emit\<close> throw; the
  batches considered here have been executed or belong to a load, and so have one.)
\<close>

definition Batch_emit :: "batch_event \<Rightarrow> Batch \<Rightarrow> Batch" where
  "Batch_emit ev b =
     (let b1 = b\<lparr>bevents := bevents b @ [ev]\<rparr>
      in if b_result b = Some Pending then
           (case ev of
              BResponse r \<Rightarrow> b1\<lparr>b_result := Some (Fulfilled r)\<rparr>
            | BError e \<Rightarrow> b1\<lparr>b_result := Some (Rejected e)\<rparr>
            | _ \<Rightarrow> b1)
         else b1)"

definition Batch_write :: "Job \<Rightarrow> Record \<Rightarrow> Batch \<Rightarrow> Batch" where
  "Batch_write j rec0 b = b\<lparr>upload := upload b @ [Rec (shape_record (joperation j) rec0)]\<rparr>"

definition coerce_booleans :: "Record \<Rightarrow> Record" where
  "coerce_booleans r =
     map (\<lambda>(key, v). (key, (case v of Bool t \<Rightarrow> Str (if t then ''true'' else ''false'') | _ \<Rightarrow> v))) r"

datatype input = NoInput | RecordsInput "Record list" | TextInput string | StreamInput "string list"

text \<open>
  \<open>execute\<close>: the first component is the exception it throws, if any; the batch is
  returned as the call leaves it. The chunks of a stream piped into the data stream are
  recorded with the call, in the order in which they will arrive.
\<close>

definition Batch_execute :: "input \<Rightarrow> Job \<Rightarrow> Batch \<Rightarrow> js_error option \<times> Batch" where
  "Batch_execute inp j b =
     (if b_result b \<noteq> None then (Some (Error ''Batch already executed.''), b)
      else
        (let b1 = b\<lparr>b_result := Some Pending\<rparr> in
         (case inp of
            StreamInput chunks \<Rightarrow>
              (None, b1\<lparr>upload := upload b1 @ map Raw chunks, uploadEnded := True\<rparr>)
          | RecordsInput records \<Rightarrow>
              (None, (foldl (\<lambda>acc r. Batch_write j (coerce_booleans r) acc) b1 records)\<lparr>uploadEnded := True\<rparr>)
          | TextInput data \<Rightarrow>
              (None, b1\<lparr>upload := upload b1 @ [Raw data], uploadEnded := True\<rparr>)
          | NoInput \<Rightarrow> (None, b1))))"

definition Batch_run :: "input \<Rightarrow> Job \<Rightarrow> Batch \<Rightarrow> js_error option \<times> Batch" where
  "Batch_run = Batch_execute"

definition Batch_exec :: "input \<Rightarrow> Job \<Rightarrow> Batch \<Rightarrow> js_error option \<times> Batch" where
  "Batch_exec = Batch_execute"

text \<open>\<open>then\<close>: starts the batch if it has no result promise yet.\<close>

definition Batch_then :: "Job \<Rightarrow> Batch \<Rightarrow> Batch" where
  "Batch_then j b = (if b_result b = None then snd (Batch_execute NoInput j b) else b)"

text \<open>
  \<open>\_createRequestStream\<close> sends the upload request; the path is built from the
  job's identity as it is then, \<open>null\<close> included.
\<close>

definition str_or_null :: "string option \<Rightarrow> string" where
  "str_or_null v = (case v of None \<Rightarrow> ''null'' | Some s \<Rightarrow> s)"

definition upload_request :: "Job \<Rightarrow> BulkRequest" where
  "upload_request j =
     \<lparr>req_method = ''POST'', req_path = ''/job/'' @ str_or_null (jid j) @ ''/batch'',
      req_body = None, req_headers = [(''Content-Type'', ''text/csv'')],
      req_responseType = Some ''application/xml''\<rparr>"

definition Batch_createRequestStream :: "Job \<Rightarrow> Bulk \<Rightarrow> Bulk" where
  "Batch_createRequestStream j k = Bulk_request (upload_request j) k"

text \<open>The asynchronous part of \<open>\_createRequestStream\<close>, when the request is answered.\<close>

definition Batch_queued :: "js_error + BatchInfo \<Rightarrow> Batch \<Rightarrow> Batch" where
  "Batch_queued outcome b =
     (case outcome of
        Inr info \<Rightarrow> Batch_emit (BQueue info) (b\<lparr>bid := Some (bi_id info)\<rparr>)
      | Inl err \<Rightarrow> Batch_emit (BError err) b)"

subsection \<open>Batch.check and Batch.retrieve\<close>

definition get_request :: "string \<Rightarrow> string option \<Rightarrow> BulkRequest" where
  "get_request path rt =
     \<lparr>req_method = ''GET'', req_path = path, req_body = None, req_headers = [],
      req_responseType = rt\<rparr>"


text \<open>
  \<open>retrieve()\<close>: the events it emits, what its promise settles to, and the transport.
\<close>

definition Batch_retrieve ::
  "Job \<Rightarrow> Batch \<Rightarrow> js_error + ResultResponse \<Rightarrow> Bulk \<Rightarrow>
     batch_event list \<times> (js_error + BatchResult) \<times> Bulk" where
  "Batch_retrieve j b answer k =
     (case (or_null (jid j), or_null (bid b)) of
        (Some jobId, Some batchId) \<Rightarrow>
          (let k1 = Bulk_request (get_request (''/job/'' @ jobId @ ''/batch/'' @ batchId @ ''/result'') None) k
           in case answer of
                Inl err \<Rightarrow> ([BError err], Inl err, k1)
              | Inr resp \<Rightarrow>
                  (case decode_response (joperation j) jobId batchId resp of
                     Inl err \<Rightarrow> ([BError err], Inl err, k1)
                   | Inr results \<Rightarrow> ([BResponse results], Inr results, k1)))
      | _ \<Rightarrow> ([], Inl (Error ''Batch not started.''), k))"

subsection \<open>Batch.poll\<close>

text \<open>
  \<open>parseInt(s, 10)\<close>: leading white space, an optional sign, then the longest run of
  decimal digits; \<open>None\<close> is \<open>NaN\<close>. \<open>is_space\<close> is the white space of JavaScript
  among the code units below 256: tab, line feed, vertical tab, form feed, carriage
  return, space and the no-break space 160. It is also the class \<^verbatim>\<open>\s\<close> of the regular
  expressions below.
\<close>

definition is_space :: "char \<Rightarrow> bool" where
  "is_space c = (of_char c \<in> {9, 10, 11, 12, 13, 32, 160 :: nat})"






text \<open>
  \<open>poll(interval, timeout)\<close> itself: it throws when the batch has not started, and
  otherwise captures both identities and the start time and sets the first timer.
\<close>

record poll_env =
  p_jobId :: string
  p_batchId :: string
  p_startTime :: int
  p_interval :: int
  p_timeout :: int

definition Batch_poll :: "int \<Rightarrow> int \<Rightarrow> int \<Rightarrow> Job \<Rightarrow> Batch \<Rightarrow> js_error + poll_env" where
  "Batch_poll interval timeout startTime j b =
     (case (or_null (jid j), or_null (bid b)) of
        (Some jobId, Some batchId) \<Rightarrow>
          Inr \<lparr>p_jobId = jobId, p_batchId = batchId, p_startTime = startTime,
               p_interval = interval, p_timeout = timeout\<rparr>
      | _ \<Rightarrow> Inl (Error ''Batch not started.''))"



section \<open>The Bulk class: load\<close>

definition Bulk_createJob :: "string \<Rightarrow> string \<Rightarrow> BulkOptions \<Rightarrow> Job" where
  "Bulk_createJob type operation options = Job_new (Some type) (Some operation) (Some options) None"

definition Bulk_job :: "string \<Rightarrow> Job" where
  "Bulk_job jobId = Job_new None None None (Some jobId)"

text \<open>
  What \<open>load\<close> sets up: the job, its batch and the transport, the closure variable
  \<open>batch\<close> (\<open>batch_var\<close> is false once it is \<open>null\<close>), whether the \<open>once\<close> listener on
  the job's \<open>error\<close> is still there, every call of \<open>job.close()\<close> made by \<open>cleanup\<close>
  (what it waits for and its promise), and every poll started by the \<open>queue\<close> listener.
\<close>

record load_sys =
  l_job :: Job
  l_batch :: Batch
  l_bulk :: Bulk
  batch_var :: bool
  job_once :: bool
  closing :: "(id_wait \<times> nat) list"
  polls :: "poll_env list"

datatype load_arg = ArgNone | ArgOptions BulkOptions | ArgInput input

definition Bulk_load :: "string \<Rightarrow> string \<Rightarrow> load_arg \<Rightarrow> input \<Rightarrow> Bulk \<Rightarrow> load_sys" where
  "Bulk_load type operation optionsOrInput inp k =
     (let (options, inp1) =
            (case optionsOrInput of
               ArgInput i \<Rightarrow> (no_options, i)
             | ArgOptions opts \<Rightarrow> (opts, inp)
             | ArgNone \<Rightarrow> (no_options, inp));
          job = Bulk_createJob type operation options
      in \<lparr>l_job = job, l_batch = snd (Batch_execute inp1 job (Batch_new None)), l_bulk = k,
          batch_var = True, job_once = True, closing = [], polls = []\<rparr>)"

text \<open>
  \<open>cleanup\<close>: \<open>batch = null; job.close()\<close>. When \<open>close()\<close> fails at once the job emits
  \<open>error\<close>; the \<open>once\<close> listener of \<open>load\<close>, if still there, is used up and finds
  \<open>batch\<close> already \<open>null\<close>.
\<close>

definition cleanup :: "load_sys \<Rightarrow> load_sys" where
  "cleanup s =
     (case Job_close (l_job s, l_bulk s) of (w, p, j, k) \<Rightarrow>
        s\<lparr>batch_var := False, l_job := j, l_bulk := k, closing := closing s @ [(w, p)],
          job_once := (case w of IdThrew err \<Rightarrow> False | _ \<Rightarrow> job_once s)\<rparr>)"

definition cleanupOnError :: "js_error \<Rightarrow> load_sys \<Rightarrow> load_sys" where
  "cleanupOnError err s = (if err_name err \<noteq> ''PollingTimeout'' then cleanup s else s)"


definition load_emit_error :: "js_error \<Rightarrow> load_sys \<Rightarrow> load_sys" where
  "load_emit_error err s = cleanupOnError err (s\<lparr>l_batch := Batch_emit (BError err) (l_batch s)\<rparr>)"


text \<open>
  The job emits \<open>error\<close>: the \<open>once\<close> listener of \<open>load\<close> passes it on to the batch
  while \<open>batch\<close> is not \<open>null\<close>.
\<close>

definition load_job_error :: "js_error \<Rightarrow> load_sys \<Rightarrow> load_sys" where
  "load_job_error err s =
     (if job_once s then
        (let s1 = s\<lparr>job_once := False\<rparr> in if batch_var s1 then load_emit_error err s1 else s1)
      else s)"

text \<open>
  The upload request is answered (the asynchronous part of \<open>\_createRequestStream\<close>):
  on success the batch gets its identity and emits \<open>queue\<close>, whose listener starts the
  poll at time \<open>now\<close>; an exception of \<open>poll\<close> is caught and emitted as \<open>error\<close>.
\<close>

definition load_queued :: "js_error + BatchInfo \<Rightarrow> int \<Rightarrow> load_sys \<Rightarrow> load_sys" where
  "load_queued outcome now s =
     (case outcome of
        Inl err \<Rightarrow> load_emit_error err s
      | Inr info \<Rightarrow>
          (let s1 = s\<lparr>l_batch := Batch_emit (BQueue info) ((l_batch s)\<lparr>bid := Some (bi_id info)\<rparr>)\<rparr>
           in if batch_var s1 then
                (case Batch_poll (pollInterval (l_bulk s1)) (pollTimeout (l_bulk s1)) now (l_job s1) (l_batch s1) of
                   Inl err \<Rightarrow> load_emit_error err s1
                 | Inr pe \<Rightarrow> s1\<lparr>polls := polls s1 @ [pe]\<rparr>)
              else s1))"






section \<open>The Bulk class: query\<close>

text \<open>
  \<open>soql.replace(/\<^verbatim>\<open>\(\<close>[\<^verbatim>\<open>\s\S\<close>]+\<^verbatim>\<open>\)\<close>/g, '')\<close>. The pattern is tried at each position from
  the left. At an opening parenthesis the greedy \<open>[\<^verbatim>\<open>\s\S\<close>]+\<close> takes everything and gives
  back as little as needed, so the match ends at the last closing parenthesis that has at
  least one character between it and the opening one; \<open>last_close\<close> finds it in the text
  after the opening parenthesis. The search goes on after the match.
\<close>

definition last_close :: "string \<Rightarrow> nat option" where
  "last_close cs =
     (case filter (\<lambda>i. cs ! i = CHR '')'') (rev [1..<length cs]) of
        [] \<Rightarrow> None
      | i # _ \<Rightarrow> Some i)"

function replace_parens :: "string \<Rightarrow> string" where
  "replace_parens [] = []"
| "replace_parens (c # cs) =
     (if c = CHR ''('' then
        (case last_close cs of
           Some i \<Rightarrow> replace_parens (drop (Suc i) cs)
         | None \<Rightarrow> c # replace_parens cs)
      else c # replace_parens cs)"
  by pat_completeness auto
termination
  by (relation "measure length") auto

text \<open>
  \<open>.match(/FROM\<^verbatim>\<open>\s\<close>+(\<^verbatim>\<open>\w\<close>+)/i)\<close>: the first position where the four letters, in
  either case, are followed by white space and then by word characters; the result is the
  captured group, the longest run of word characters there.
\<close>

definition is_word :: "char \<Rightarrow> bool" where
  "is_word c =
     (let n = (of_char c :: nat)
      in (48 \<le> n \<and> n \<le> 57) \<or> (65 \<le> n \<and> n \<le> 90) \<or> (97 \<le> n \<and> n \<le> 122) \<or> n = 95)"

definition match_from_at :: "string \<Rightarrow> string option" where
  "match_from_at s =
     (if toLowerCase (take 4 s) = ''from'' then
        (let r = drop 4 s; w = takeWhile is_word (dropWhile is_space r)
         in if takeWhile is_space r \<noteq> [] \<and> w \<noteq> [] then Some w else None)
      else None)"

fun match_from :: "string \<Rightarrow> string option" where
  "match_from [] = None"
| "match_from (c # cs) =
     (case match_from_at (c # cs) of Some w \<Rightarrow> Some w | None \<Rightarrow> match_from cs)"

datatype stream_event = SError js_error

text \<open>
  The record stream \<open>query\<close> returns: the error events emitted on it, and the result
  parts whose decoded streams are piped into it, in order.
\<close>

record record_stream =
  rs_events :: "stream_event list"
  rs_parts :: "QueryResult list"

definition Parsable_new :: record_stream where
  "Parsable_new = \<lparr>rs_events = [], rs_parts = []\<rparr>"

text \<open>
  The synchronous part of \<open>query\<close>: \<open>Inl\<close> is the exception it throws; otherwise the
  record stream it returns, and the load it has started.
\<close>

definition Bulk_query :: "string \<Rightarrow> Bulk \<Rightarrow> js_error + (record_stream \<times> load_sys)" where
  "Bulk_query soql k =
     (case match_from (replace_parens soql) of
        None \<Rightarrow> Inl (Error ''No sobject type found in query, maybe caused by invalid SOQL.'')
      | Some type \<Rightarrow> Inr (Parsable_new, Bulk_load type ''query'' (ArgInput (TextInput soql)) NoInput k))"

text \<open>
  \<open>Batch.result(resultId)\<close> on \<open>this.job(jobId).batch(batchId)\<close>: it throws when either
  identity is falsy and sends the request for the result part otherwise.
\<close>

definition Batch_result :: "QueryResult \<Rightarrow> Bulk \<Rightarrow> js_error + Bulk" where
  "Batch_result part k =
     (case (or_null (jid (Bulk_job (qr_jobId part))), or_null (bid (Batch_new (Some (qr_batchId part))))) of
        (Some jobId, Some batchId) \<Rightarrow>
          Inr (Bulk_request
                 (get_request (''/job/'' @ jobId @ ''/batch/'' @ batchId @ ''/result/'' @ qr_id part)
                    (Some ''application/octet-stream'')) k)
      | _ \<Rightarrow> Inl (Error ''Batch not started.''))"

fun open_parts :: "QueryResult list \<Rightarrow> Bulk \<Rightarrow> js_error + Bulk" where
  "open_parts [] k = Inr k"
| "open_parts (part # parts) k =
     (case Batch_result part k of Inl err \<Rightarrow> Inl err | Inr k1 \<Rightarrow> open_parts parts k1)"

text \<open>
  The asynchronous part of \<open>query\<close>, once the promise of the load is settled to
  \<open>outcome\<close>: the body of the \<open>try\<close>, and the \<open>catch\<close> that emits on the record stream.
  The requests sent before a part throws stay sent.
\<close>

fun sent_parts :: "QueryResult list \<Rightarrow> Bulk \<Rightarrow> Bulk" where
  "sent_parts [] k = k"
| "sent_parts (part # parts) k =
     (case Batch_result part k of Inl err \<Rightarrow> k | Inr k1 \<Rightarrow> sent_parts parts k1)"

definition query_settle ::
  "js_error + QueryResult list \<Rightarrow> record_stream \<times> Bulk \<Rightarrow> record_stream \<times> Bulk" where
  "query_settle outcome rk =
     (case rk of (rs, k) \<Rightarrow>
        (case outcome of
           Inl err \<Rightarrow> (rs\<lparr>rs_events := rs_events rs @ [SError err]\<rparr>, k)
         | Inr parts \<Rightarrow>
             (case open_parts parts k of
                Inl err \<Rightarrow> (rs\<lparr>rs_events := rs_events rs @ [SError err]\<rparr>, sent_parts parts k)
              | Inr k1 \<Rightarrow> (rs\<lparr>rs_parts := rs_parts rs @ parts\<rparr>, k1))))"

text \<open>
  The words of the specification, "a \<open>FROM <entity>\<close> clause can be found in the SOQL
  text": the search for the clause, on the text as it is given.
\<close>

definition spec_from_clause_found :: "string \<Rightarrow> bool" where
  "spec_from_clause_found soql = (match_from soql \<noteq> None)"

section \<open>Ticks of a poll that is still in progress\<close>




section \<open>Example inputs\<close>

definition example_record :: Record where
  "example_record = [(''Id'', Str ''001''), (''type'', Str ''Account''), (''Name'', Str ''Acme'')]"

definition example_info :: "JobState \<Rightarrow> JobInfo" where
  "example_info st = \<lparr>ji_id = ''750'', ji_object = ''Account'', ji_operation = ''insert'', ji_state = st\<rparr>"

text \<open>A job for \<open>Account\<close> whose open request the remote has answered.\<close>

definition example_job :: "string \<Rightarrow> Job" where
  "example_job operation =
     (case Job_open (Bulk_createJob ''Account'' operation no_options, Bulk_new) of
        Inr (p, j, k) \<Rightarrow> fst (Job_open_settle p (Inr (example_info Open)) (j, k))
      | Inl err \<Rightarrow> Bulk_createJob ''Account'' operation no_options)"

definition example_batch :: Batch where
  "example_batch = Batch_queued
     (Inr \<lparr>bi_id = ''751'', bi_jobId = ''750'', bi_state = BQueued, bi_stateMessage = [],
           bi_numberRecordsProcessed = ''0'', bi_numberRecordsFailed = ''0'',
           bi_totalProcessingTime = ''0''\<rparr>)
     (snd (Batch_execute (RecordsInput [example_record]) (example_job ''insert'') (Batch_new None)))"

definition example_rows :: "LoadResultRow list" where
  "example_rows =
     [\<lparr>row_Id = Some ''001'', row_Success = Some ''true'', row_Error = Some []\<rparr>,
      \<lparr>row_Id = None, row_Success = Some ''false'', row_Error = Some ''Required field missing''\<rparr>,
      \<lparr>row_Id = Some ''003'', row_Success = Some ''true'', row_Error = Some []\<rparr>]"




text \<open>A job just created by \<open>load\<close>, and the same job and the transport after \<open>open()\<close>.\<close>

definition fresh_job :: Job where
  "fresh_job = Bulk_createJob ''Account'' ''insert'' no_options"

definition opening_job :: Job where
  "opening_job = fresh_job\<lparr>jobInfo := Some 0\<rparr>"

definition opening_bulk :: Bulk where
  "opening_bulk = snd (new_promise (Bulk_request (open_request ''insert'' ''Account'' no_options) Bulk_new))"

text \<open>
  The job just created, opened by the remote as job \<open>750\<close>, then closed: the job and
  the transport after the answer to \<open>open()\<close>, after the call of \<open>close()\<close>, and after
  the remote has answered the close.
\<close>

definition opened_state :: "Job \<times> Bulk" where
  "opened_state = Job_open_settle 0 (Inr (example_info Open)) (opening_job, opening_bulk)"

definition closing_state :: "Job \<times> Bulk" where
  "closing_state = snd (snd (Job_close opened_state))"

definition closed_state :: "Job \<times> Bulk" where
  "closed_state = snd (Job_close_settle 1 (Inr (example_info Closed)) closing_state)"



section \<open>Basic facts\<close>

lemma truthy_or_null: "truthy v \<Longrightarrow> \<exists>s. or_null v = Some s"
  by (cases v) (auto simp: truthy_def or_null_def)


lemma map_of_rrec:
  "k \<noteq> ''Id'' \<Longrightarrow> k \<noteq> ''type'' \<Longrightarrow> k \<noteq> ''attributes'' \<Longrightarrow> map_of (rrec r) k = map_of r k"
  unfolding rrec_def by (induction r) auto

lemma keys_rrec: "keys (rrec r) = keys r - {''Id'', ''type'', ''attributes''}"
  unfolding rrec_def keys_def by force

lemma Batch_emit_bid [simp]: "bid (Batch_emit ev b) = bid b"
  by (cases ev) (simp_all add: Batch_emit_def Let_def)

lemma Batch_emit_bevents [simp]: "bevents (Batch_emit ev b) = bevents b @ [ev]"
  by (cases ev) (simp_all add: Batch_emit_def Let_def)

lemma foldl_write_result:
  "b_result (foldl (\<lambda>acc r. Batch_write j (f r) acc) b rs) = b_result b"
  by (induction rs arbitrary: b) (simp_all add: Batch_write_def)

lemma execute_sets_result: "b_result (snd (Batch_execute inp j b)) \<noteq> None"
  by (cases inp) (auto simp: Batch_execute_def Let_def foldl_write_result)

lemma example_job_fields:
  "operation \<noteq> [] \<Longrightarrow> joperation (example_job operation) = Some operation \<and> jid (example_job operation) = Some ''750''"
  by (simp add: example_job_def Job_open_def Bulk_createJob_def Job_new_def or_null_def truthy_def
      new_promise_def Job_open_settle_def Job_emit_def example_info_def)

lemma example_job_state: "jstate (example_job ''insert'') = Open"
  by (simp add: example_job_def Job_open_def Bulk_createJob_def Job_new_def or_null_def truthy_def
      new_promise_def Job_open_settle_def Job_emit_def example_info_def)

lemma example_batch_bid: "bid example_batch = Some ''751''"
  by (simp add: example_batch_def Batch_queued_def)

section \<open>Shaping of written records\<close>

text \<open>
  Claim C2, as the code has it. Every record written to the batch reaches the encoder
  shaped by the job's operation. For \<open>insert\<close> the shaped record has no \<open>Id\<close> field, and
  its fields are those of the input other than \<open>Id\<close>, \<open>type\<close> and \<open>attributes\<close>. For
  \<open>delete\<close> and \<open>hardDelete\<close> it is the \<open>Id\<close> field alone. For every other operation
  its fields are \<open>Id\<close> and the fields of the input other than \<open>type\<close> and
  \<open>attributes\<close>. Whenever fields other than \<open>Id\<close> are kept, each keeps its value.
\<close>

theorem write_shapes_record:
  "upload (Batch_write j r b) = upload b @ [Rec (shape_record (joperation j) r)] \<and>
   (joperation j = Some ''insert'' \<longrightarrow>
      ''Id'' \<notin> keys (shape_record (joperation j) r) \<and>
      keys (shape_record (joperation j) r) = keys r - {''Id'', ''type'', ''attributes''}) \<and>
   (joperation j = Some ''delete'' \<or> joperation j = Some ''hardDelete'' \<longrightarrow>
      shape_record (joperation j) r = [(''Id'', field r ''Id'')]) \<and>
   (joperation j \<noteq> Some ''insert'' \<and> joperation j \<noteq> Some ''delete'' \<and>
    joperation j \<noteq> Some ''hardDelete'' \<longrightarrow>
      keys (shape_record (joperation j) r) = insert ''Id'' (keys r - {''type'', ''attributes''}) \<and>
      map_of (shape_record (joperation j) r) ''Id'' = Some (field r ''Id'')) \<and>
   (joperation j \<noteq> Some ''delete'' \<and> joperation j \<noteq> Some ''hardDelete'' \<longrightarrow>
      (\<forall>k. k \<noteq> ''Id'' \<and> k \<noteq> ''type'' \<and> k \<noteq> ''attributes'' \<longrightarrow>
         map_of (shape_record (joperation j) r) k = map_of r k))"
proof -
  have a: "upload (Batch_write j r b) = upload b @ [Rec (shape_record (joperation j) r)]"
    by (simp add: Batch_write_def)
  have b: "joperation j = Some ''insert'' \<longrightarrow>
      ''Id'' \<notin> keys (shape_record (joperation j) r) \<and>
      keys (shape_record (joperation j) r) = keys r - {''Id'', ''type'', ''attributes''}"
    by (simp add: shape_record_def keys_rrec)
  have c: "joperation j = Some ''delete'' \<or> joperation j = Some ''hardDelete'' \<longrightarrow>
      shape_record (joperation j) r = [(''Id'', field r ''Id'')]"
    by (auto simp add: shape_record_def)
  have d: "joperation j \<noteq> Some ''insert'' \<and> joperation j \<noteq> Some ''delete'' \<and>
      joperation j \<noteq> Some ''hardDelete'' \<longrightarrow>
      keys (shape_record (joperation j) r) = insert ''Id'' (keys r - {''type'', ''attributes''}) \<and>
      map_of (shape_record (joperation j) r) ''Id'' = Some (field r ''Id'')"
  proof (intro impI conjI)
    assume h: "joperation j \<noteq> Some ''insert'' \<and> joperation j \<noteq> Some ''delete'' \<and>
      joperation j \<noteq> Some ''hardDelete''"
    then have s: "shape_record (joperation j) r = (''Id'', field r ''Id'') # rrec r"
      by (simp add: shape_record_def)
    have "keys ((''Id'', field r ''Id'') # rrec r) = insert ''Id'' (keys (rrec r))"
      by (simp add: keys_def)
    then show "keys (shape_record (joperation j) r) = insert ''Id'' (keys r - {''type'', ''attributes''})"
      using s keys_rrec [of r] by auto
    show "map_of (shape_record (joperation j) r) ''Id'' = Some (field r ''Id'')"
      using s by simp
  qed
  have e: "joperation j \<noteq> Some ''delete'' \<and> joperation j \<noteq> Some ''hardDelete'' \<longrightarrow>
      (\<forall>k. k \<noteq> ''Id'' \<and> k \<noteq> ''type'' \<and> k \<noteq> ''attributes'' \<longrightarrow>
         map_of (shape_record (joperation j) r) k = map_of r k)"
    by (simp add: shape_record_def map_of_rrec)
  from a b c d e show ?thesis by blast
qed

text \<open>
  The shaping of claim C2 on the example record, for an \<open>insert\<close>, a \<open>delete\<close> and
  an \<open>upsert\<close> job.
\<close>

theorem write_shapes_record_witness:
  "joperation (example_job ''insert'') = Some ''insert'' \<and>
   ''Id'' \<notin> keys (shape_record (Some ''insert'') example_record) \<and>
   joperation (example_job ''delete'') = Some ''delete'' \<and>
   shape_record (Some ''delete'') example_record = [(''Id'', Str ''001'')] \<and>
   joperation (example_job ''upsert'') = Some ''upsert'' \<and>
   keys (shape_record (Some ''upsert'') example_record) = {''Id'', ''Name''} \<and>
   map_of (shape_record (Some ''upsert'') example_record) ''Name'' = Some (Str ''Acme'')"
proof -
  have i: "joperation (example_job ''insert'') = Some ''insert''"
    and d: "joperation (example_job ''delete'') = Some ''delete''"
    and u: "joperation (example_job ''upsert'') = Some ''upsert''"
    by (simp_all add: example_job_fields)
  have f: "field example_record ''Id'' = Str ''001''"
    by (simp add: field_def example_record_def)
  have k: "keys example_record = {''Id'', ''type'', ''Name''}"
    by (auto simp add: keys_def example_record_def)
  have n: "map_of example_record ''Name'' = Some (Str ''Acme'')"
    by (simp add: example_record_def)
  have k2: "insert ''Id'' (keys example_record - {''type'', ''attributes''}) = {''Id'', ''Name''}"
    unfolding k by auto
  show ?thesis
    using write_shapes_record [of "example_job ''insert''" example_record example_batch]
      write_shapes_record [of "example_job ''delete''" example_record example_batch]
      write_shapes_record [of "example_job ''upsert''" example_record example_batch]
    unfolding i d u using f k2 n by simp
qed

text \<open>
  Claim C2 as it is worded fails for an \<open>update\<close> of a record that has a \<open>type\<close> field:
  the field is a remaining field of the input and is not in the shaped record.
\<close>

theorem update_drops_type_field:
  "''type'' \<in> keys [(''Id'', Str ''001''), (''type'', Str ''Account''), (''Name'', Str ''Acme'')] \<and>
   ''type'' \<notin> keys (shape_record (Some ''update'')
      [(''Id'', Str ''001''), (''type'', Str ''Account''), (''Name'', Str ''Acme'')])"
  by (simp add: keys_def shape_record_def rrec_def)

section \<open>Decoding of load results\<close>

text \<open>
  Claim C3. For a job whose operation is not a query, retrieving the result of a started
  batch from a response of outcome rows emits and returns one entry per row, in the
  order of the rows. The entry's id is the row's \<open>Id\<close>, or \<open>null\<close> when the row has none
  (no value or the empty text); its success flag is true exactly when the row's
  \<open>Success\<close> is the text \<open>true\<close>; its errors are the row's error message alone when the
  row has one (a non-empty text), and no errors otherwise.
\<close>

theorem retrieve_decodes_load_rows:
  assumes "joperation j \<noteq> Some ''query''" and "joperation j \<noteq> Some ''queryAll''"
    and "truthy (jid j)" and "truthy (bid b)"
  shows "\<exists>res.
     fst (Batch_retrieve j b (Inr (LoadResponse rows)) k) = [BResponse (LoadBatchResult res)] \<and>
     fst (snd (Batch_retrieve j b (Inr (LoadResponse rows)) k)) = Inr (LoadBatchResult res) \<and>
     length res = length rows \<and>
     (\<forall>i < length rows.
        res_id (res ! i) =
          (case row_Id (rows ! i) of None \<Rightarrow> None | Some s \<Rightarrow> if s = [] then None else Some s) \<and>
        res_success (res ! i) = (row_Success (rows ! i) = Some ''true'') \<and>
        res_errors (res ! i) =
          (case row_Error (rows ! i) of None \<Rightarrow> [] | Some e \<Rightarrow> if e = [] then [] else [e]))"
proof -
  obtain jobId batchId where ids: "or_null (jid j) = Some jobId" "or_null (bid b) = Some batchId"
    using assms(3,4) truthy_or_null by blast
  let ?res = "map decode_row rows"
  have dec: "decode_response (joperation j) jobId batchId (LoadResponse rows) = Inr (LoadBatchResult ?res)"
    using assms(1,2) by (simp add: decode_response_def)
  have run: "Batch_retrieve j b (Inr (LoadResponse rows)) k =
       ([BResponse (LoadBatchResult ?res)], Inr (LoadBatchResult ?res),
        Bulk_request (get_request (''/job/'' @ jobId @ ''/batch/'' @ batchId @ ''/result'') None) k)"
    by (simp add: Batch_retrieve_def ids dec Let_def)
  have row: "\<And>r. res_id (decode_row r) =
          (case row_Id r of None \<Rightarrow> None | Some s \<Rightarrow> if s = [] then None else Some s) \<and>
        res_success (decode_row r) = (row_Success r = Some ''true'') \<and>
        res_errors (decode_row r) =
          (case row_Error r of None \<Rightarrow> [] | Some e \<Rightarrow> if e = [] then [] else [e])"
    by (simp add: decode_row_def or_null_def truthy_def split: option.splits)
  have "\<forall>i < length rows.
        res_id (?res ! i) =
          (case row_Id (rows ! i) of None \<Rightarrow> None | Some s \<Rightarrow> if s = [] then None else Some s) \<and>
        res_success (?res ! i) = (row_Success (rows ! i) = Some ''true'') \<and>
        res_errors (?res ! i) =
          (case row_Error (rows ! i) of None \<Rightarrow> [] | Some e \<Rightarrow> if e = [] then [] else [e])"
    using row by simp
  with run show ?thesis by (intro exI [of _ ?res]) simp
qed

text \<open>
  Claim C3 on the three outcome rows of the partial failure example: the second entry
  alone has an error and no id, and the order is kept.
\<close>

theorem retrieve_decodes_load_rows_witness:
  "joperation (example_job ''insert'') \<noteq> Some ''query'' \<and>
   joperation (example_job ''insert'') \<noteq> Some ''queryAll'' \<and>
   truthy (jid (example_job ''insert'')) \<and> truthy (bid example_batch) \<and>
   (\<exists>res. fst (Batch_retrieve (example_job ''insert'') example_batch (Inr (LoadResponse example_rows)) Bulk_new)
            = [BResponse (LoadBatchResult res)] \<and>
          length res = 3 \<and>
          res_id (res ! 1) = None \<and> \<not> res_success (res ! 1) \<and>
          res_errors (res ! 1) = [''Required field missing''] \<and>
          res_id (res ! 0) = Some ''001'' \<and> res_success (res ! 0) \<and> res_errors (res ! 0) = [] \<and>
          res_id (res ! 2) = Some ''003'' \<and> res_success (res ! 2) \<and> res_errors (res ! 2) = [])"
proof -
  have h1: "joperation (example_job ''insert'') \<noteq> Some ''query''"
    and h2: "joperation (example_job ''insert'') \<noteq> Some ''queryAll''"
    and h3: "truthy (jid (example_job ''insert''))"
    and h4: "truthy (bid example_batch)"
    by (simp_all add: example_job_fields example_batch_bid truthy_def)
  from retrieve_decodes_load_rows [OF h1 h2 h3 h4, of example_rows Bulk_new]
  obtain res where r: "fst (Batch_retrieve (example_job ''insert'') example_batch (Inr (LoadResponse example_rows)) Bulk_new)
            = [BResponse (LoadBatchResult res)]"
     and l: "length res = length example_rows"
     and a: "\<forall>i < length example_rows.
        res_id (res ! i) =
          (case row_Id (example_rows ! i) of None \<Rightarrow> None | Some s \<Rightarrow> if s = [] then None else Some s) \<and>
        res_success (res ! i) = (row_Success (example_rows ! i) = Some ''true'') \<and>
        res_errors (res ! i) =
          (case row_Error (example_rows ! i) of None \<Rightarrow> [] | Some e \<Rightarrow> if e = [] then [] else [e])"
    by blast
  have len: "length example_rows = 3" by (simp add: example_rows_def)
  have r0: "example_rows ! 0 = \<lparr>row_Id = Some ''001'', row_Success = Some ''true'', row_Error = Some []\<rparr>"
    and r1: "example_rows ! 1 = \<lparr>row_Id = None, row_Success = Some ''false'', row_Error = Some ''Required field missing''\<rparr>"
    and r2: "example_rows ! 2 = \<lparr>row_Id = Some ''003'', row_Success = Some ''true'', row_Error = Some []\<rparr>"
    by (simp_all add: example_rows_def)
  have "0 < length example_rows" "1 < length example_rows" "2 < length example_rows"
    by (simp_all add: len)
  then have "res_id (res ! 1) = None \<and> \<not> res_success (res ! 1) \<and>
          res_errors (res ! 1) = [''Required field missing''] \<and>
          res_id (res ! 0) = Some ''001'' \<and> res_success (res ! 0) \<and> res_errors (res ! 0) = [] \<and>
          res_id (res ! 2) = Some ''003'' \<and> res_success (res ! 2) \<and> res_errors (res ! 2) = []"
    using a r0 r1 r2 by simp
  with r l len h1 h2 h3 h4 show ?thesis by auto
qed

text \<open>
  Claim C9. In the result of a load operation, a row whose \<open>Id\<close> is the empty text is
  decoded exactly as the same row without an \<open>Id\<close>: the entry's id is \<open>null\<close>.
\<close>

theorem empty_id_decodes_like_missing_id:
  assumes "operation \<noteq> Some ''query''" and "operation \<noteq> Some ''queryAll''"
  shows "decode_response operation jobId batchId (LoadResponse (pre @ r\<lparr>row_Id := Some []\<rparr> # post)) =
         decode_response operation jobId batchId (LoadResponse (pre @ r\<lparr>row_Id := None\<rparr> # post)) \<and>
         decode_response operation jobId batchId (LoadResponse (pre @ r\<lparr>row_Id := Some []\<rparr> # post)) =
           Inr (LoadBatchResult (map decode_row pre @ decode_row r\<lparr>res_id := None\<rparr> # map decode_row post))"
  using assms by (simp add: decode_response_def decode_row_def or_null_def truthy_def)

text \<open>Claim C9 on a response of one failed row.\<close>

theorem empty_id_decodes_like_missing_id_witness:
  "Some ''insert'' \<noteq> Some ''query'' \<and> Some ''insert'' \<noteq> Some ''queryAll'' \<and>
   decode_response (Some ''insert'') ''750'' ''751''
     (LoadResponse [\<lparr>row_Id = Some [], row_Success = Some ''false'', row_Error = Some ''bad''\<rparr>]) =
   decode_response (Some ''insert'') ''750'' ''751''
     (LoadResponse [\<lparr>row_Id = None, row_Success = Some ''false'', row_Error = Some ''bad''\<rparr>]) \<and>
   decode_response (Some ''insert'') ''750'' ''751''
     (LoadResponse [\<lparr>row_Id = Some [], row_Success = Some ''false'', row_Error = Some ''bad''\<rparr>]) =
   Inr (LoadBatchResult [\<lparr>res_id = None, res_success = False, res_errors = [''bad'']\<rparr>])"
proof -
  have h1: "Some ''insert'' \<noteq> Some ''query''" and h2: "Some ''insert'' \<noteq> Some ''queryAll''"
    by simp_all
  from empty_id_decodes_like_missing_id [OF h1 h2, of "''750''" "''751''" "[]"
      "\<lparr>row_Id = None, row_Success = Some ''false'', row_Error = Some ''bad''\<rparr>" "[]"]
  have e: "decode_response (Some ''insert'') ''750'' ''751''
     (LoadResponse [\<lparr>row_Id = Some [], row_Success = Some ''false'', row_Error = Some ''bad''\<rparr>]) =
   decode_response (Some ''insert'') ''750'' ''751''
     (LoadResponse [\<lparr>row_Id = None, row_Success = Some ''false'', row_Error = Some ''bad''\<rparr>])"
    and f: "decode_response (Some ''insert'') ''750'' ''751''
     (LoadResponse [\<lparr>row_Id = Some [], row_Success = Some ''false'', row_Error = Some ''bad''\<rparr>]) =
   Inr (LoadBatchResult [decode_row \<lparr>row_Id = None, row_Success = Some ''false'', row_Error = Some ''bad''\<rparr>
          \<lparr>res_id := None\<rparr>])"
    by auto
  have g: "decode_row \<lparr>row_Id = None, row_Success = Some ''false'', row_Error = Some ''bad''\<rparr>
          \<lparr>res_id := None\<rparr> = \<lparr>res_id = None, res_success = False, res_errors = [''bad'']\<rparr>"
    by (simp add: decode_row_def or_null_def truthy_def)
  from e f g show ?thesis by simp
qed

section \<open>The guard against a second execute\<close>

text \<open>
  Claim C4. On a batch on which \<open>execute\<close> has been called, a further call of
  \<open>execute\<close>, \<open>run\<close> or \<open>exec\<close>, with any input, throws the error
  \<open>Batch already executed.\<close> and leaves the batch as it was: nothing more is written
  towards the upload.
\<close>

theorem execute_twice_throws:
  "Batch_execute inp2 j2 (snd (Batch_execute inp1 j1 b)) =
     (Some (Error ''Batch already executed.''), snd (Batch_execute inp1 j1 b)) \<and>
   Batch_run inp2 j2 (snd (Batch_execute inp1 j1 b)) =
     (Some (Error ''Batch already executed.''), snd (Batch_execute inp1 j1 b)) \<and>
   Batch_exec inp2 j2 (snd (Batch_execute inp1 j1 b)) =
     (Some (Error ''Batch already executed.''), snd (Batch_execute inp1 j1 b))"
proof -
  have "Batch_execute inp2 j2 (snd (Batch_execute inp1 j1 b)) =
     (Some (Error ''Batch already executed.''), snd (Batch_execute inp1 j1 b))"
    using execute_sets_result [of inp1 j1 b]
    by (subst Batch_execute_def) simp
  then show ?thesis by (simp add: Batch_run_def Batch_exec_def)
qed

section \<open>A failed batch with processed records\<close>



section \<open>Opening a job\<close>

lemma Job_open_memo:
  assumes "jobInfo j = Some p" "truthy (jtype j)" "truthy (joperation j)"
  shows "Job_open (j, k) = Inr (p, j, k)"
proof -
  obtain t o' where "or_null (jtype j) = Some t" "or_null (joperation j) = Some o'"
    using assms(2,3) truthy_or_null by blast
  then show ?thesis using assms(1) by (simp add: Job_open_def)
qed

lemma Job_open_Inr:
  assumes "Job_open (j, k) = Inr (p, j1, k1)"
  shows "jobInfo j1 = Some p \<and> truthy (jtype j1) \<and> truthy (joperation j1)"
  using assms
  by (auto simp: Job_open_def or_null_def new_promise_def Let_def split: option.splits if_splits prod.splits)


lemma Job_open_falsy:
  assumes "\<not> truthy (jtype j) \<or> \<not> truthy (joperation j)"
  shows "Job_open (j, k) = Inl (Error ''type / operation is required to open a new job'')"
  using assms by (auto simp: Job_open_def or_null_def split: option.splits)

lemma Job_open_settle_fields:
  "jobInfo (fst (Job_open_settle p outcome (j, k))) = jobInfo j \<and>
   jtype (fst (Job_open_settle p outcome (j, k))) = jtype j \<and>
   joperation (fst (Job_open_settle p outcome (j, k))) = joperation j"
  by (cases outcome) (simp_all add: Job_open_settle_def Job_emit_def)

lemma Job_open_cached:
  assumes "jobInfo j \<noteq> None" and "Job_open (j, k) = Inr (q, ja, ka)"
  shows "jobInfo j = Some q \<and> ja = j \<and> ka = k"
  using assms by (auto simp: Job_open_def split: option.splits)

lemma Job_open_types:
  assumes "Job_open (j, k) = Inr (p, j1, k1)"
  shows "jtype j1 = jtype j \<and> joperation j1 = joperation j"
  using assms
  by (auto simp: Job_open_def or_null_def new_promise_def Let_def split: option.splits if_splits prod.splits)

lemma Job_waitId_types:
  assumes "Job_waitIdAssignment (j, k) = (w, j1, k1)"
  shows "jtype j1 = jtype j \<and> joperation j1 = joperation j"
proof (cases "or_null (jid j)")
  case (Some i)
  then show ?thesis using assms by (simp add: Job_waitIdAssignment_def)
next
  case None
  show ?thesis
  proof (cases "Job_open (j, k)")
    case (Inl e)
    then show ?thesis using assms None by (simp add: Job_waitIdAssignment_def)
  next
    case (Inr r)
    then obtain p j' k' where r: "Job_open (j, k) = Inr (p, j', k')" by (cases r) auto
    then have "j1 = j'" using assms None by (simp add: Job_waitIdAssignment_def)
    then show ?thesis using Job_open_types [OF r] by simp
  qed
qed

lemma Job_changeState_cache:
  assumes "Job_changeState st (j, k) = (w, p, j1, k1)"
  shows "jobInfo j1 = Some p \<and> jtype j1 = jtype j \<and> joperation j1 = joperation j"
proof -
  obtain w0 j0 k0 where a: "Job_waitIdAssignment (j, k) = (w0, j0, k0)"
    by (cases "Job_waitIdAssignment (j, k)")
  have "j1 = j0\<lparr>jobInfo := Some p\<rparr>"
    using assms a by (cases w0) (auto simp: Job_changeState_def new_promise_def Let_def)
  then show ?thesis using Job_waitId_types [OF a] by simp
qed

lemma Job_close_cache:
  assumes "Job_close (j, k) = (w, p, j1, k1)"
  shows "jobInfo j1 = Some p \<and> jtype j1 = jtype j \<and> joperation j1 = joperation j"
proof -
  obtain w0 p0 j0 k0 where a: "Job_changeState Closed (j, k) = (w0, p0, j0, k0)"
    by (cases "Job_changeState Closed (j, k)")
  from Job_changeState_cache [OF a] assms a show ?thesis
    by (cases w0) (auto simp: Job_close_def Job_close_after_def Job_emit_def)
qed

lemma Job_abort_cache:
  assumes "Job_abort (j, k) = (w, p, j1, k1)"
  shows "jobInfo j1 = Some p \<and> jtype j1 = jtype j \<and> joperation j1 = joperation j"
proof -
  obtain w0 p0 j0 k0 where a: "Job_changeState Aborted (j, k) = (w0, p0, j0, k0)"
    by (cases "Job_changeState Aborted (j, k)")
  from Job_changeState_cache [OF a] assms a show ?thesis
    by (cases w0) (auto simp: Job_abort_def Job_abort_after_def Job_emit_def)
qed

lemma Job_check_cache:
  assumes "Job_check (j, k) = (w, p, j1, k1)"
  shows "jobInfo j1 = Some p \<and> jtype j1 = jtype j \<and> joperation j1 = joperation j"
proof -
  obtain w0 j0 k0 where a: "Job_waitIdAssignment (j, k) = (w0, j0, k0)"
    by (cases "Job_waitIdAssignment (j, k)")
  have "j1 = j0\<lparr>jobInfo := Some p\<rparr>"
    using assms a by (cases w0) (auto simp: Job_check_def new_promise_def Let_def)
  then show ?thesis using Job_waitId_types [OF a] by simp
qed

lemma open_after_cache:
  assumes "jobInfo j1 = Some p \<and> jtype j1 = jtype j \<and> joperation j1 = joperation j"
    and "truthy (jtype j)" and "truthy (joperation j)"
  shows "Job_open (j1, k1) = Inr (p, j1, k1)"
proof -
  have "jobInfo j1 = Some p" "truthy (jtype j1)" "truthy (joperation j1)"
    using assms by auto
  then show ?thesis by (rule Job_open_memo)
qed

text \<open>
  Claim C6, as the code has it. A job keeps in \<open>\_jobInfo\<close> the promise of the latest
  of its calls of \<open>open()\<close>, \<open>check()\<close>, \<open>close()\<close> and \<open>abort()\<close>. With type and
  operation set, \<open>open()\<close> on a job that holds such a promise returns that promise, sends
  no request and changes nothing. So a further \<open>open()\<close> directly after \<open>open()\<close>,
  while the request is pending or after it has been answered, with success or with an
  error, returns the promise of the first call; and \<open>open()\<close> after \<open>close()\<close>,
  \<open>abort()\<close> or \<open>check()\<close> returns the promise of that call. A job whose type or
  operation is not set throws from \<open>open()\<close>.
\<close>

theorem open_returns_cached_promise:
  "(jobInfo j = Some p \<and> truthy (jtype j) \<and> truthy (joperation j) \<longrightarrow>
      Job_open (j, k) = Inr (p, j, k)) \<and>
   (jobInfo j \<noteq> None \<and> Job_open (j, k) = Inr (q, ja, ka) \<longrightarrow>
      jobInfo j = Some q \<and> ja = j \<and> ka = k) \<and>
   (Job_open (j, k) = Inr (p, j1, k1) \<longrightarrow>
      Job_open (j1, k1) = Inr (p, j1, k1) \<and>
      (\<forall>outcome. Job_open (Job_open_settle p outcome (j1, k1)) =
          Inr (p, Job_open_settle p outcome (j1, k1)))) \<and>
   (truthy (jtype j) \<and> truthy (joperation j) \<and> Job_close (j, k) = (w, pc, jc, kc) \<longrightarrow>
      Job_open (jc, kc) = Inr (pc, jc, kc)) \<and>
   (truthy (jtype j) \<and> truthy (joperation j) \<and> Job_abort (j, k) = (w, pc, jc, kc) \<longrightarrow>
      Job_open (jc, kc) = Inr (pc, jc, kc)) \<and>
   (truthy (jtype j) \<and> truthy (joperation j) \<and> Job_check (j, k) = (w, pc, jc, kc) \<longrightarrow>
      Job_open (jc, kc) = Inr (pc, jc, kc)) \<and>
   (\<not> truthy (jtype j) \<or> \<not> truthy (joperation j) \<longrightarrow>
      Job_open (j, k) = Inl (Error ''type / operation is required to open a new job''))"
proof -
  have a: "jobInfo j = Some p \<and> truthy (jtype j) \<and> truthy (joperation j) \<longrightarrow>
      Job_open (j, k) = Inr (p, j, k)"
    using Job_open_memo [of j p k] by blast
  have b: "jobInfo j \<noteq> None \<and> Job_open (j, k) = Inr (q, ja, ka) \<longrightarrow>
      jobInfo j = Some q \<and> ja = j \<and> ka = k"
    using Job_open_cached [of j k q ja ka] by blast
  have c: "Job_open (j, k) = Inr (p, j1, k1) \<longrightarrow>
      Job_open (j1, k1) = Inr (p, j1, k1) \<and>
      (\<forall>outcome. Job_open (Job_open_settle p outcome (j1, k1)) =
          Inr (p, Job_open_settle p outcome (j1, k1)))"
  proof (intro impI conjI allI)
    assume h: "Job_open (j, k) = Inr (p, j1, k1)"
    from Job_open_Inr [OF h] show "Job_open (j1, k1) = Inr (p, j1, k1)"
      using Job_open_memo [of j1 p k1] by blast
    fix outcome
    obtain j2 k2 where s: "Job_open_settle p outcome (j1, k1) = (j2, k2)"
      by (cases "Job_open_settle p outcome (j1, k1)")
    have "jobInfo j2 = Some p \<and> truthy (jtype j2) \<and> truthy (joperation j2)"
      using Job_open_Inr [OF h] Job_open_settle_fields [of p outcome j1 k1] s by simp
    then show "Job_open (Job_open_settle p outcome (j1, k1)) = Inr (p, Job_open_settle p outcome (j1, k1))"
      using s Job_open_memo [of j2 p k2] by simp
  qed
  have d: "truthy (jtype j) \<and> truthy (joperation j) \<and> Job_close (j, k) = (w, pc, jc, kc) \<longrightarrow>
      Job_open (jc, kc) = Inr (pc, jc, kc)"
    using Job_close_cache [of j k w pc jc kc] open_after_cache [of jc pc j kc] by blast
  have e: "truthy (jtype j) \<and> truthy (joperation j) \<and> Job_abort (j, k) = (w, pc, jc, kc) \<longrightarrow>
      Job_open (jc, kc) = Inr (pc, jc, kc)"
    using Job_abort_cache [of j k w pc jc kc] open_after_cache [of jc pc j kc] by blast
  have f: "truthy (jtype j) \<and> truthy (joperation j) \<and> Job_check (j, k) = (w, pc, jc, kc) \<longrightarrow>
      Job_open (jc, kc) = Inr (pc, jc, kc)"
    using Job_check_cache [of j k w pc jc kc] open_after_cache [of jc pc j kc] by blast
  have g: "\<not> truthy (jtype j) \<or> \<not> truthy (joperation j) \<longrightarrow>
      Job_open (j, k) = Inl (Error ''type / operation is required to open a new job'')"
    using Job_open_falsy [of j k] by blast
  from a b c d e f g show ?thesis by blast
qed

lemma fresh_open: "Job_open (fresh_job, Bulk_new) = Inr (0, opening_job, opening_bulk)"
  by (simp add: fresh_job_def opening_job_def opening_bulk_def Job_open_def Bulk_createJob_def
      Job_new_def or_null_def truthy_def new_promise_def Bulk_request_def Bulk_new_def)

lemma opening_job_fields:
  "jtype opening_job = Some ''Account'' \<and> joperation opening_job = Some ''insert'' \<and>
   jid opening_job = None \<and> jstate opening_job = Unknown \<and> jobInfo opening_job = Some 0"
  by (simp add: opening_job_def fresh_job_def Bulk_createJob_def Job_new_def truthy_def)

lemma opened_state_fields:
  "jtype (fst opened_state) = Some ''Account'' \<and> joperation (fst opened_state) = Some ''insert'' \<and>
   jid (fst opened_state) = Some ''750'' \<and> jstate (fst opened_state) = Open \<and>
   jobInfo (fst opened_state) = Some 0 \<and> length (promises (snd opened_state)) = 1"
  by (simp add: opened_state_def Job_open_settle_def Job_emit_def example_info_def opening_job_fields
      settle_def opening_bulk_def new_promise_def Bulk_request_def Bulk_new_def)

lemma Job_close_known:
  assumes "or_null (jid j) = Some i"
  shows "Job_close (j, k) =
     (IdReady i, length (promises k), j\<lparr>jobInfo := Some (length (promises k))\<rparr>,
      Bulk_request (changeState_request Closed i) (snd (new_promise k)))"
  using assms
  by (simp add: Job_close_def Job_changeState_def Job_waitIdAssignment_def new_promise_def Let_def)

lemma Job_abort_known:
  assumes "or_null (jid j) = Some i"
  shows "Job_abort (j, k) =
     (IdReady i, length (promises k), j\<lparr>jobInfo := Some (length (promises k))\<rparr>,
      Bulk_request (changeState_request Aborted i) (snd (new_promise k)))"
  using assms
  by (simp add: Job_abort_def Job_changeState_def Job_waitIdAssignment_def new_promise_def Let_def)

lemma Job_check_known:
  assumes "or_null (jid j) = Some i"
  shows "Job_check (j, k) =
     (IdReady i, length (promises k), j\<lparr>jobInfo := Some (length (promises k))\<rparr>,
      Bulk_request (check_request i) (snd (new_promise k)))"
  using assms
  by (simp add: Job_check_def Job_waitIdAssignment_def new_promise_def Let_def)

lemma opened_state_id: "or_null (jid (fst opened_state)) = Some ''750''"
  using opened_state_fields by (simp add: or_null_def truthy_def)

lemma opened_state_types: "truthy (jtype (fst opened_state)) \<and> truthy (joperation (fst opened_state))"
  using opened_state_fields by (simp add: truthy_def)

lemma close_opened: "Job_close opened_state = (IdReady ''750'', 1, closing_state)"
proof -
  have "Job_close (fst opened_state, snd opened_state) =
     (IdReady ''750'', 1, (fst opened_state)\<lparr>jobInfo := Some 1\<rparr>,
      Bulk_request (changeState_request Closed ''750'') (snd (new_promise (snd opened_state))))"
    using Job_close_known [OF opened_state_id, of "snd opened_state"] opened_state_fields by simp
  then show ?thesis by (simp add: closing_state_def)
qed






text \<open>
  Claim C6 on the example job: the first \<open>open()\<close> sends one request; a second call,
  before or after the answer, returns the same promise; after \<open>close()\<close>, \<open>abort()\<close>
  or \<open>check()\<close> on the opened job, \<open>open()\<close> returns the promise of that call; a job
  made from an identity alone has no type and throws.
\<close>

theorem open_returns_cached_promise_witness:
  "jobInfo opening_job = Some 0 \<and> truthy (jtype opening_job) \<and> truthy (joperation opening_job) \<and>
   Job_open (fresh_job, Bulk_new) = Inr (0, opening_job, opening_bulk) \<and>
   length (requests opening_bulk) = 1 \<and>
   Job_open (opening_job, opening_bulk) = Inr (0, opening_job, opening_bulk) \<and>
   Job_open opened_state = Inr (0, opened_state) \<and>
   Job_open (Job_open_settle 0 (Inl (Error ''refused'')) (opening_job, opening_bulk)) =
     Inr (0, Job_open_settle 0 (Inl (Error ''refused'')) (opening_job, opening_bulk)) \<and>
   truthy (jtype (fst opened_state)) \<and> truthy (joperation (fst opened_state)) \<and>
   Job_close opened_state = (IdReady ''750'', 1, closing_state) \<and>
   Job_open closing_state = Inr (1, closing_state) \<and>
   Job_open (snd (snd (Job_abort opened_state))) = Inr (1, snd (snd (Job_abort opened_state))) \<and>
   Job_open (snd (snd (Job_check opened_state))) = Inr (1, snd (snd (Job_check opened_state))) \<and>
   \<not> truthy (jtype (Bulk_job ''750'')) \<and>
   Job_open (Bulk_job ''750'', Bulk_new) =
     Inl (Error ''type / operation is required to open a new job'')"
proof -
  note f = opening_job_fields
  have h0: "jobInfo opening_job = Some 0 \<and> truthy (jtype opening_job) \<and> truthy (joperation opening_job)"
    using f by (simp add: truthy_def)
  have n: "length (requests opening_bulk) = 1"
    by (simp add: opening_bulk_def new_promise_def Bulk_request_def Bulk_new_def)
  have nt: "\<not> truthy (jtype (Bulk_job ''750''))"
    by (simp add: Bulk_job_def Job_new_def truthy_def)
  from open_returns_cached_promise [THEN conjunct1, rule_format, of opening_job 0 opening_bulk] h0
  have a: "Job_open (opening_job, opening_bulk) = Inr (0, opening_job, opening_bulk)"
    by blast
  from open_returns_cached_promise [THEN conjunct2, THEN conjunct2, THEN conjunct1, rule_format] fresh_open
  have c: "\<And>outcome. Job_open (Job_open_settle 0 outcome (opening_job, opening_bulk)) =
          Inr (0, Job_open_settle 0 outcome (opening_job, opening_bulk))"
    by blast
  have c1: "Job_open opened_state = Inr (0, opened_state)"
    using c [of "Inr (example_info Open)"] by (simp add: opened_state_def)
  obtain wa ja ka where ab: "Job_abort (fst opened_state, snd opened_state) = (wa, 1, ja, ka)"
    using Job_abort_known [OF opened_state_id, of "snd opened_state"] opened_state_fields by simp
  obtain wc jc kc where ch: "Job_check (fst opened_state, snd opened_state) = (wc, 1, jc, kc)"
    using Job_check_known [OF opened_state_id, of "snd opened_state"] opened_state_fields by simp
  have cl: "Job_close (fst opened_state, snd opened_state) =
      (IdReady ''750'', 1, fst closing_state, snd closing_state)"
    using close_opened by simp
  note ty = opened_state_types
  from open_returns_cached_promise [THEN conjunct2, THEN conjunct2, THEN conjunct2, THEN conjunct1, rule_format] cl ty
  have "Job_open (fst closing_state, snd closing_state) = Inr (1, fst closing_state, snd closing_state)"
    by blast
  then have d: "Job_open closing_state = Inr (1, closing_state)" by simp
  from open_returns_cached_promise [THEN conjunct2, THEN conjunct2, THEN conjunct2, THEN conjunct2, THEN conjunct1, rule_format] ab ty
  have e: "Job_open (ja, ka) = Inr (1, ja, ka)" by blast
  from open_returns_cached_promise [THEN conjunct2, THEN conjunct2, THEN conjunct2, THEN conjunct2, THEN conjunct2, THEN conjunct1, rule_format] ch ty
  have g: "Job_open (jc, kc) = Inr (1, jc, kc)" by blast
  have e': "Job_open (snd (snd (Job_abort opened_state))) = Inr (1, snd (snd (Job_abort opened_state)))"
    using e ab by simp
  have g': "Job_open (snd (snd (Job_check opened_state))) = Inr (1, snd (snd (Job_check opened_state)))"
    using g ch by simp
  from open_returns_cached_promise [THEN conjunct2, THEN conjunct2, THEN conjunct2, THEN conjunct2, THEN conjunct2, THEN conjunct2, rule_format, of "Bulk_job ''750''" Bulk_new] nt
  have z: "Job_open (Bulk_job ''750'', Bulk_new) =
     Inl (Error ''type / operation is required to open a new job'')"
    by blast
  from h0 fresh_open n a c1 c [of "Inl (Error ''refused'')"] ty close_opened d e' g' nt z
  show ?thesis by blast
qed

text \<open>
  Claim C6 as it is worded fails for a job that has been opened and then closed. Its open
  request is completed, and a further \<open>open()\<close> returns another promise than the first
  call did: the promise of the close, fulfilled with the information of the closed job.
  No second open request is sent.
\<close>

theorem open_after_close_returns_other_promise:
  "Job_open (fresh_job, Bulk_new) = Inr (0, opening_job, opening_bulk) \<and>
   Job_open closed_state = Inr (1, closed_state) \<and>
   promises (snd closed_state) ! 0 = Fulfilled (example_info Open) \<and>
   promises (snd closed_state) ! 1 = Fulfilled (example_info Closed) \<and>
   length (requests (snd closed_state)) = 2"
  by code_simp

section \<open>States and identity of a job\<close>

text \<open>
  Claim C7. A job constructed without an identity is in state \<open>Unknown\<close> and has none;
  constructed from an identity (a non-empty text) it is in state \<open>Open\<close> with that
  identity. When the open request succeeds, the remote answering with state \<open>Open\<close>,
  the job is in state \<open>Open\<close> with the identity the remote assigned. When a close
  succeeds, the remote answering with state \<open>Closed\<close>, the job is in state \<open>Closed\<close>
  and its identity is \<open>null\<close>.
\<close>

theorem job_lifecycle_states:
  "jstate (Job_new type operation options None) = Unknown \<and>
   jid (Job_new type operation options None) = None \<and>
   (i \<noteq> [] \<longrightarrow> jstate (Job_new type operation options (Some i)) = Open \<and>
                jid (Job_new type operation options (Some i)) = Some i) \<and>
   (ji_state info = Open \<longrightarrow>
      jstate (fst (Job_open_settle p (Inr info) (j, k))) = Open \<and>
      jid (fst (Job_open_settle p (Inr info) (j, k))) = Some (ji_id info)) \<and>
   (ji_state info = Closed \<longrightarrow>
      jstate (fst (snd (Job_close_settle p (Inr info) (j, k)))) = Closed \<and>
      jid (fst (snd (Job_close_settle p (Inr info) (j, k)))) = None)"
  by (simp add: Job_new_def truthy_def Job_open_settle_def Job_emit_def Job_close_settle_def
      Job_changeState_settle_def Job_close_after_def)

text \<open>
  Claim C7 on the example job: created, opened by the remote as job \<open>750\<close>, closed.
\<close>

theorem job_lifecycle_states_witness:
  "jstate (Bulk_createJob ''Account'' ''insert'' no_options) = Unknown \<and>
   jid (Bulk_createJob ''Account'' ''insert'' no_options) = None \<and>
   ''750'' \<noteq> [] \<and> jstate (Bulk_job ''750'') = Open \<and> jid (Bulk_job ''750'') = Some ''750'' \<and>
   ji_state (example_info Open) = Open \<and>
   jstate (fst (Job_open_settle 0 (Inr (example_info Open)) (opening_job, opening_bulk))) = Open \<and>
   jid (fst (Job_open_settle 0 (Inr (example_info Open)) (opening_job, opening_bulk))) = Some ''750'' \<and>
   ji_state (example_info Closed) = Closed \<and>
   jstate (fst (snd (Job_close_settle 1 (Inr (example_info Closed)) (example_job ''insert'', opening_bulk)))) = Closed \<and>
   jid (fst (snd (Job_close_settle 1 (Inr (example_info Closed)) (example_job ''insert'', opening_bulk)))) = None"
proof -
  have o: "ji_state (example_info Open) = Open" and c: "ji_state (example_info Closed) = Closed"
    and i: "ji_id (example_info Open) = ''750''"
    by (simp_all add: example_info_def)
  have ne: "''750'' \<noteq> []" by simp
  from job_lifecycle_states [of "Some ''Account''" "Some ''insert''" "Some no_options" "''750''"
      "example_info Open" 0 opening_job opening_bulk] o i
  have a: "jstate (Bulk_createJob ''Account'' ''insert'' no_options) = Unknown \<and>
   jid (Bulk_createJob ''Account'' ''insert'' no_options) = None \<and>
   jstate (fst (Job_open_settle 0 (Inr (example_info Open)) (opening_job, opening_bulk))) = Open \<and>
   jid (fst (Job_open_settle 0 (Inr (example_info Open)) (opening_job, opening_bulk))) = Some ''750''"
    by (simp add: Bulk_createJob_def)
  from job_lifecycle_states [of None None None "''750''"
      "example_info Closed" 1 "example_job ''insert''" opening_bulk] c ne
  have b: "jstate (Bulk_job ''750'') = Open \<and> jid (Bulk_job ''750'') = Some ''750'' \<and>
   jstate (fst (snd (Job_close_settle 1 (Inr (example_info Closed)) (example_job ''insert'', opening_bulk)))) = Closed \<and>
   jid (fst (snd (Job_close_settle 1 (Inr (example_info Closed)) (example_job ''insert'', opening_bulk)))) = None"
    by (simp add: Bulk_job_def)
  from a b o c ne show ?thesis by blast
qed






















section \<open>The polling deadline and the closing of the job\<close>











section \<open>The entity of a bulk query\<close>

lemma replace_parens_without:
  "CHR ''('' \<notin> set s \<Longrightarrow> replace_parens s = s"
  by (induction s) auto

lemma query_without_parentheses:
  assumes "CHR ''('' \<notin> set soql"
  shows "(\<exists>err. Bulk_query soql k = Inl err) \<longleftrightarrow> \<not> spec_from_clause_found soql"
  using assms
  by (auto simp: Bulk_query_def spec_from_clause_found_def replace_parens_without split: option.splits)

lemma query_failure_is_stream_error:
  "query_settle (Inl err) (rs, k) = (rs\<lparr>rs_events := rs_events rs @ [SError err]\<rparr>, k)"
  by (simp add: query_settle_def)

text \<open>
  Claim C8 does not hold of the code at a query with a subquery and a condition in
  parentheses. The text has a \<open>FROM\<close> clause with an entity, and the call throws
  all the same: everything from the first opening parenthesis to the last closing one is
  removed before the clause is looked for, the clause on \<open>Account\<close> with it.
\<close>

theorem query_throws_despite_from_clause:
  "spec_from_clause_found ''SELECT Id, (SELECT Id FROM Contacts) FROM Account WHERE (Name != null)'' \<and>
   Bulk_query ''SELECT Id, (SELECT Id FROM Contacts) FROM Account WHERE (Name != null)'' Bulk_new =
     Inl (Error ''No sobject type found in query, maybe caused by invalid SOQL.'')"
  unfolding Bulk_query_def by code_simp

end
